theory Spec2Isabelle
  imports Main "HOL-Library.Sublist"
begin

section \<open>The OpenAI Sora video client (pkg/video/openai\_sora\_client.go)\<close>

text \<open>
  The file embeds the two operations of \<^verbatim>\<open>OpenAISoraClient\<close>: \<^verbatim>\<open>GenerateVideo\<close>
  (submission) and \<^verbatim>\<open>GetTaskStatus\<close> (polling). Both are one blocking round trip.
  Everything the Go code obtains from the standard library at run time (whether
  \<^verbatim>\<open>http.NewRequest\<close> accepts the URL, what \<^verbatim>\<open>HTTPClient.Do\<close> and \<^verbatim>\<open>io.ReadAll\<close>
  deliver, what \<^verbatim>\<open>json.Unmarshal\<close> decodes, the random multipart boundary) is a field
  of an explicit environment, so that every theorem quantifies over all behaviours of
  the network and of the decoder. Each operation returns its Go result pair as a sum
  (\<open>Inl\<close> the error, \<open>Inr\<close> the \<^verbatim>\<open>*VideoResult\<close>) together with the list of library
  calls it made, in order.
\<close>

subsection \<open>Go errors and formatting\<close>

text \<open>
  A Go error value: its \<^verbatim>\<open>Error()\<close> text and, for an error built with the verb
  \<^verbatim>\<open>%w\<close>, the error it wraps.
\<close>

datatype error = Error (message: string) (unwrap: "error option")

text \<open>\<^verbatim>\<open>fmt.Errorf(pre + "%w", err)\<close>: the text of \<open>err\<close> after \<open>pre\<close>, wrapping \<open>err\<close>.\<close>

definition Errorf_w :: "string \<Rightarrow> error \<Rightarrow> error" where
  "Errorf_w pre err = Error (pre @ message err) (Some err)"

text \<open>The verb \<^verbatim>\<open>%d\<close> on a Go \<^verbatim>\<open>int\<close>: decimal digits, most significant first, with a
  leading minus sign for a negative number.\<close>

fun digits :: "nat \<Rightarrow> string" where
  "digits n =
     (if n < 10 then [''0123456789'' ! n]
      else digits (n div 10) @ [''0123456789'' ! (n mod 10)])"

declare digits.simps [simp del]

definition Sprintf_d :: "int \<Rightarrow> string" where
  "Sprintf_d i = (if i < 0 then CHR ''-'' # digits (nat (- i)) else digits (nat i))"

text \<open>
  The reading of a decimal numeral, written from the spec's words "string-encoded
  integer": it is the inverse against which the encoding of \<^verbatim>\<open>seconds\<close> is compared.
\<close>

definition digit_value :: "char \<Rightarrow> nat" where
  "digit_value ch = of_char ch - 48"

definition decimal_digits_value :: "string \<Rightarrow> nat" where
  "decimal_digits_value s = foldl (\<lambda>acc ch. 10 * acc + digit_value ch) 0 s"

definition decimal_value :: "string \<Rightarrow> int" where
  "decimal_value s =
     (case s of
        [] \<Rightarrow> 0
      | ch # rest \<Rightarrow>
          if ch = CHR ''-'' then - int (decimal_digits_value rest)
          else int (decimal_digits_value s))"

subsection \<open>Data model\<close>

text \<open>The \<^verbatim>\<open>http.Client\<close> held by the client; only its timeout (in seconds) is set.\<close>

record http_Client =
  Timeout :: nat

record OpenAISoraClient =
  BaseURL :: string
  APIKey :: string
  Model :: string
  HTTPClient :: http_Client

text \<open>The two anonymous struct fields of \<^verbatim>\<open>OpenAISoraResponse\<close>.\<close>

record OpenAISoraResponse_Video =
  URL :: string

record OpenAISoraResponse_Error =
  Message :: string
  Type :: string

record OpenAISoraResponse =
  ID :: string
  Object :: string
  Model :: string
  Status :: string
  Progress :: int
  CreatedAt :: int
  CompletedAt :: int
  Size :: string
  Seconds :: string
  Quality :: string
  VideoURL :: string
  Video :: OpenAISoraResponse_Video
  Error :: OpenAISoraResponse_Error

text \<open>
  Modelled from the spec: the declaration of \<^verbatim>\<open>VideoOptions\<close> is in another file of
  package \<^verbatim>\<open>video\<close>. The spec's GenerationOptions has a duration in seconds, a
  resolution label and a model override; these are the three fields the client reads.
  \<^verbatim>\<open>Duration\<close> is a Go \<^verbatim>\<open>int\<close>; the client only compares and prints it, so it is an
  \<open>int\<close> here (every machine value is one).
\<close>

record VideoOptions =
  Duration :: int
  Resolution :: string
  Model :: string

text \<open>
  Modelled from the spec: \<^verbatim>\<open>VideoOption\<close>, declared beside \<^verbatim>\<open>VideoOptions\<close>, is a
  function that mutates the options bag in place; here it maps the bag to the mutated
  bag.
\<close>

type_synonym VideoOption = "VideoOptions \<Rightarrow> VideoOptions"

text \<open>
  Modelled from the spec: the declaration of \<^verbatim>\<open>VideoResult\<close> is in another file of
  package \<^verbatim>\<open>video\<close>. The spec's VideoResult has a task identifier, the status string,
  the completed flag, the resolved video URL and an optional error message; these are
  the five fields the client writes. A field the client does not assign keeps Go's zero
  value, the empty string.
\<close>

record VideoResult =
  TaskID :: string
  Status :: string
  Completed :: bool
  VideoURL :: string
  Error :: string

text \<open>
  A multipart form under construction: the fields written so far, in order. The
  byte-level encoding (boundary lines, part headers) is the work of
  \<^verbatim>\<open>mime/multipart\<close> and is not modelled. \<^verbatim>\<open>WriteField\<close> appends one part; its error
  result, which the client ignores, cannot occur on a \<^verbatim>\<open>bytes.Buffer\<close>.
  \<^verbatim>\<open>writer.Close()\<close> only writes the closing boundary and adds no field; the deferred
  \<^verbatim>\<open>resp.Body.Close()\<close> changes no result. Neither appears below.
\<close>

type_synonym multipart_form = "(string \<times> string) list"

definition WriteField :: "multipart_form \<Rightarrow> string \<Rightarrow> string \<Rightarrow> multipart_form" where
  "WriteField writer fieldname v = writer @ [(fieldname, v)]"

record http_Request =
  Method :: string
  Endpoint :: string
  Header :: "(string \<times> string) list"
  Form :: "multipart_form option"

text \<open>What \<^verbatim>\<open>Do\<close> hands back: the status code and what \<^verbatim>\<open>io.ReadAll\<close> will make of the
  body, an error or the bytes.\<close>

record http_Response =
  StatusCode :: int
  Body :: "error + string"

text \<open>The library behaviours the client depends on.\<close>

record env =
  NewRequest :: "string \<Rightarrow> string \<Rightarrow> error option"
  Do :: "http_Client \<Rightarrow> http_Request \<Rightarrow> error + http_Response"
  Unmarshal :: "string \<Rightarrow> error + OpenAISoraResponse"
  Boundary :: string

text \<open>The library calls an operation makes, recorded in order.\<close>

datatype call =
    Call_NewRequest string string
  | Call_Do http_Request
  | Call_ReadAll
  | Call_Unmarshal string

subsection \<open>The constructor\<close>

definition NewOpenAISoraClient :: "string \<Rightarrow> string \<Rightarrow> string \<Rightarrow> OpenAISoraClient" where
  "NewOpenAISoraClient baseURL apiKey model =
     \<lparr>BaseURL = baseURL, APIKey = apiKey, OpenAISoraClient.Model = model,
      HTTPClient = \<lparr>Timeout = 300\<rparr>\<rparr>"

subsection \<open>GenerateVideo\<close>

text \<open>Lines 53 to 59: the default bag, then every mutator in argument order.\<close>

definition GenerateVideo_options :: "VideoOption list \<Rightarrow> VideoOptions" where
  "GenerateVideo_options opts =
     fold (\<lambda>opt options. opt options) opts
       \<lparr>Duration = 4, Resolution = '''', VideoOptions.Model = ''''\<rparr>"

text \<open>Lines 61 to 84: the model choice and the fields written to the multipart writer.\<close>

definition GenerateVideo_form ::
  "OpenAISoraClient \<Rightarrow> string \<Rightarrow> string \<Rightarrow> VideoOption list \<Rightarrow> multipart_form" where
  "GenerateVideo_form c imageURL prompt opts =
     (let options = GenerateVideo_options opts;
          model = (if VideoOptions.Model options \<noteq> '''' then VideoOptions.Model options
                   else OpenAISoraClient.Model c);
          writer = [];
          writer = WriteField writer ''model'' model;
          writer = WriteField writer ''prompt'' prompt;
          writer = (if imageURL \<noteq> '''' then WriteField writer ''input_reference'' imageURL
                    else writer);
          writer = (if Duration options > 0
                    then WriteField writer ''seconds'' (Sprintf_d (Duration options))
                    else writer);
          writer = (if Resolution options \<noteq> ''''
                    then WriteField writer ''size'' (Resolution options)
                    else writer)
      in writer)"

text \<open>Lines 86 to 93: the request as it is handed to \<^verbatim>\<open>Do\<close>.\<close>

definition GenerateVideo_request ::
  "env \<Rightarrow> OpenAISoraClient \<Rightarrow> string \<Rightarrow> string \<Rightarrow> VideoOption list \<Rightarrow> http_Request" where
  "GenerateVideo_request e c imageURL prompt opts =
     \<lparr>Method = ''POST'',
      Endpoint = BaseURL c @ ''/videos'',
      Header = [(''Content-Type'', ''multipart/form-data; boundary='' @ Boundary e),
                (''Authorization'', ''Bearer '' @ APIKey c)],
      Form = Some (GenerateVideo_form c imageURL prompt opts)\<rparr>"

definition GenerateVideo ::
  "env \<Rightarrow> OpenAISoraClient \<Rightarrow> string \<Rightarrow> string \<Rightarrow> VideoOption list
     \<Rightarrow> (error + VideoResult) \<times> call list" where
  "GenerateVideo e c imageURL prompt opts =
     (let endpoint = BaseURL c @ ''/videos'';
          req = GenerateVideo_request e c imageURL prompt opts;
          t1 = [Call_NewRequest ''POST'' endpoint]
      in case NewRequest e ''POST'' endpoint of
           Some err \<Rightarrow> (Inl (Errorf_w ''create request: '' err), t1)
         | None \<Rightarrow>
        (let t2 = t1 @ [Call_Do req]
         in case Do e (HTTPClient c) req of
              Inl err \<Rightarrow> (Inl (Errorf_w ''send request: '' err), t2)
            | Inr resp \<Rightarrow>
           (let t3 = t2 @ [Call_ReadAll]
            in case Body resp of
                 Inl err \<Rightarrow> (Inl (Errorf_w ''read response: '' err), t3)
               | Inr respBody \<Rightarrow>
              if StatusCode resp \<noteq> 200 \<and> StatusCode resp \<noteq> 201
              then (Inl (error.Error (''API error (status '' @ Sprintf_d (StatusCode resp)
                                        @ ''): '' @ respBody) None), t3)
              else
                (let t4 = t3 @ [Call_Unmarshal respBody]
                 in case Unmarshal e respBody of
                      Inl err \<Rightarrow> (Inl (Errorf_w ''parse response: '' err), t4)
                    | Inr result \<Rightarrow>
                   if Message (OpenAISoraResponse.Error result) \<noteq> ''''
                   then (Inl (error.Error (''openai error: ''
                                 @ Message (OpenAISoraResponse.Error result)) None), t4)
                   else
                     (let videoResult =
                            \<lparr>TaskID = ID result,
                             VideoResult.Status = OpenAISoraResponse.Status result,
                             Completed = (OpenAISoraResponse.Status result = ''completed''),
                             VideoResult.VideoURL = '''',
                             VideoResult.Error = ''''\<rparr>;
                          videoResult =
                            (if OpenAISoraResponse.VideoURL result \<noteq> ''''
                             then videoResult\<lparr>VideoResult.VideoURL :=
                                    OpenAISoraResponse.VideoURL result\<rparr>
                             else if URL (Video result) \<noteq> ''''
                             then videoResult\<lparr>VideoResult.VideoURL := URL (Video result)\<rparr>
                             else videoResult)
                      in (Inr videoResult, t4))))))"

subsection \<open>GetTaskStatus\<close>

text \<open>Lines 136 to 142: the lookup request; it has no body.\<close>

definition GetTaskStatus_request :: "OpenAISoraClient \<Rightarrow> string \<Rightarrow> http_Request" where
  "GetTaskStatus_request c taskID =
     \<lparr>Method = ''GET'',
      Endpoint = BaseURL c @ ''/videos/'' @ taskID,
      Header = [(''Authorization'', ''Bearer '' @ APIKey c)],
      Form = None\<rparr>"

definition GetTaskStatus ::
  "env \<Rightarrow> OpenAISoraClient \<Rightarrow> string \<Rightarrow> (error + VideoResult) \<times> call list" where
  "GetTaskStatus e c taskID =
     (let endpoint = BaseURL c @ ''/videos/'' @ taskID;
          req = GetTaskStatus_request c taskID;
          t1 = [Call_NewRequest ''GET'' endpoint]
      in case NewRequest e ''GET'' endpoint of
           Some err \<Rightarrow> (Inl (Errorf_w ''create request: '' err), t1)
         | None \<Rightarrow>
        (let t2 = t1 @ [Call_Do req]
         in case Do e (HTTPClient c) req of
              Inl err \<Rightarrow> (Inl (Errorf_w ''send request: '' err), t2)
            | Inr resp \<Rightarrow>
           (let t3 = t2 @ [Call_ReadAll]
            in case Body resp of
                 Inl err \<Rightarrow> (Inl (Errorf_w ''read response: '' err), t3)
               | Inr body \<Rightarrow>
                (let t4 = t3 @ [Call_Unmarshal body]
                 in case Unmarshal e body of
                      Inl err \<Rightarrow> (Inl (Errorf_w ''parse response: '' err), t4)
                    | Inr result \<Rightarrow>
                     (let videoResult =
                            \<lparr>TaskID = ID result,
                             VideoResult.Status = OpenAISoraResponse.Status result,
                             Completed = (OpenAISoraResponse.Status result = ''completed''),
                             VideoResult.VideoURL = '''',
                             VideoResult.Error = ''''\<rparr>;
                          videoResult =
                            (if Message (OpenAISoraResponse.Error result) \<noteq> ''''
                             then videoResult\<lparr>VideoResult.Error :=
                                    Message (OpenAISoraResponse.Error result)\<rparr>
                             else videoResult);
                          videoResult =
                            (if OpenAISoraResponse.VideoURL result \<noteq> ''''
                             then videoResult\<lparr>VideoResult.VideoURL :=
                                    OpenAISoraResponse.VideoURL result\<rparr>
                             else if URL (Video result) \<noteq> ''''
                             then videoResult\<lparr>VideoResult.VideoURL := URL (Video result)\<rparr>
                             else videoResult)
                      in (Inr videoResult, t4))))))"

subsection \<open>Observations on a run\<close>

text \<open>
  The spec's precedence rule for the video location, written from its words: the flat
  field if non-empty, otherwise the nested field, otherwise empty.
\<close>

definition resolve_video_url :: "string \<Rightarrow> string \<Rightarrow> string" where
  "resolve_video_url flat nested =
     (if flat \<noteq> '''' then flat else if nested \<noteq> '''' then nested else '''')"

text \<open>
  The HTTP response of a submission, as the code sees it after lines 87 to 104: the
  status code and the body read, when the request was created, sent and read without
  error.
\<close>

definition GenerateVideo_response ::
  "env \<Rightarrow> OpenAISoraClient \<Rightarrow> string \<Rightarrow> string \<Rightarrow> VideoOption list
     \<Rightarrow> (int \<times> string) option" where
  "GenerateVideo_response e c imageURL prompt opts =
     (case NewRequest e ''POST'' (BaseURL c @ ''/videos'') of
        Some err \<Rightarrow> None
      | None \<Rightarrow>
          (case Do e (HTTPClient c) (GenerateVideo_request e c imageURL prompt opts) of
             Inl err \<Rightarrow> None
           | Inr resp \<Rightarrow>
               (case Body resp of
                  Inl err \<Rightarrow> None
                | Inr respBody \<Rightarrow> Some (StatusCode resp, respBody))))"

text \<open>The same for a status lookup, after lines 137 to 153.\<close>

definition GetTaskStatus_response ::
  "env \<Rightarrow> OpenAISoraClient \<Rightarrow> string \<Rightarrow> (int \<times> string) option" where
  "GetTaskStatus_response e c taskID =
     (case NewRequest e ''GET'' (BaseURL c @ ''/videos/'' @ taskID) of
        Some err \<Rightarrow> None
      | None \<Rightarrow>
          (case Do e (HTTPClient c) (GetTaskStatus_request c taskID) of
             Inl err \<Rightarrow> None
           | Inr resp \<Rightarrow>
               (case Body resp of
                  Inl err \<Rightarrow> None
                | Inr body \<Rightarrow> Some (StatusCode resp, body))))"

subsection \<open>Sample runs\<close>

text \<open>
  A client, provider responses and environments on which the theorems below are
  exercised. \<open>sample_env code body\<close> is a network that accepts every request and answers
  it with status \<open>code\<close> and body \<open>body\<close>; its decoder knows three bodies and rejects
  every other one.
\<close>

definition sample_client :: OpenAISoraClient where
  "sample_client = NewOpenAISoraClient ''https://api.test/v1'' ''sk-test'' ''sora-2''"

definition zero_response :: OpenAISoraResponse where
  "zero_response =
     \<lparr>ID = '''', Object = '''', OpenAISoraResponse.Model = '''',
      OpenAISoraResponse.Status = '''', Progress = 0, CreatedAt = 0, CompletedAt = 0,
      Size = '''', Seconds = '''', Quality = '''', OpenAISoraResponse.VideoURL = '''',
      Video = \<lparr>URL = ''''\<rparr>,
      OpenAISoraResponse.Error = \<lparr>Message = '''', Type = ''''\<rparr>\<rparr>"

definition sample_done :: OpenAISoraResponse where
  "sample_done =
     zero_response\<lparr>ID := ''t1'', OpenAISoraResponse.Status := ''completed'',
       OpenAISoraResponse.VideoURL := ''https://cdn/flat.mp4'',
       Video := \<lparr>URL = ''https://cdn/nested.mp4''\<rparr>\<rparr>"

definition sample_capital :: OpenAISoraResponse where
  "sample_capital =
     zero_response\<lparr>ID := ''t2'', OpenAISoraResponse.Status := ''Completed'',
       Video := \<lparr>URL = ''https://cdn/nested.mp4''\<rparr>\<rparr>"

definition sample_failed :: OpenAISoraResponse where
  "sample_failed =
     zero_response\<lparr>ID := ''t3'', OpenAISoraResponse.Status := ''failed'',
       Video := \<lparr>URL = ''https://cdn/partial.mp4''\<rparr>,
       OpenAISoraResponse.Error := \<lparr>Message = ''content policy'', Type = ''invalid_request''\<rparr>\<rparr>"

definition sample_Unmarshal :: "string \<Rightarrow> error + OpenAISoraResponse" where
  "sample_Unmarshal b =
     (if b = ''done'' then Inr sample_done
      else if b = ''capital'' then Inr sample_capital
      else if b = ''failed'' then Inr sample_failed
      else Inl (error.Error ''invalid character'' None))"

definition sample_env :: "int \<Rightarrow> string \<Rightarrow> env" where
  "sample_env code body =
     \<lparr>NewRequest = (\<lambda>method url. None),
      Do = (\<lambda>client req. Inr \<lparr>StatusCode = code, Body = Inr body\<rparr>),
      Unmarshal = sample_Unmarshal,
      Boundary = ''3f9a''\<rparr>"

section \<open>Properties\<close>

subsection \<open>Decimal formatting\<close>

lemma digit_value_nth: "d < 10 \<Longrightarrow> digit_value (''0123456789'' ! d) = d"
proof -
  assume "d < 10"
  then have "d \<in> {0, 1, 2, 3, 4, 5, 6, 7, 8, 9}" by auto
  then show ?thesis by (auto simp: digit_value_def)
qed

lemma digit_nth_not_minus: "d < 10 \<Longrightarrow> ''0123456789'' ! d \<noteq> CHR ''-''"
proof -
  assume "d < 10"
  then have "d \<in> {0, 1, 2, 3, 4, 5, 6, 7, 8, 9}" by auto
  then show ?thesis by auto
qed

lemma decimal_digits_value_snoc:
  "decimal_digits_value (s @ [ch]) = 10 * decimal_digits_value s + digit_value ch"
  by (simp add: decimal_digits_value_def)

lemma decimal_digits_value_digits: "decimal_digits_value (digits n) = n"
proof (induction n rule: digits.induct)
  case (1 n)
  show ?case
  proof (cases "n < 10")
    case True
    then show ?thesis
      by (simp add: digits.simps [of n] decimal_digits_value_def digit_value_nth)
  next
    case False
    then have "decimal_digits_value (digits (n div 10)) = n div 10"
      using "1.IH" by simp
    then show ?thesis
      using False
      by (simp add: digits.simps [of n] decimal_digits_value_snoc digit_value_nth)
  qed
qed

lemma digits_head: "\<exists>ch rest. digits n = ch # rest \<and> ch \<noteq> CHR ''-''"
proof (induction n rule: digits.induct)
  case (1 n)
  show ?case
  proof (cases "n < 10")
    case True
    then show ?thesis
      by (simp add: digits.simps [of n] digit_nth_not_minus)
  next
    case False
    then obtain ch rest where "digits (n div 10) = ch # rest" "ch \<noteq> CHR ''-''"
      using "1.IH" by auto
    then show ?thesis
      using False by (simp add: digits.simps [of n])
  qed
qed

text \<open>Reading back what \<^verbatim>\<open>%d\<close> printed gives the integer printed.\<close>

lemma decimal_value_Sprintf_d: "decimal_value (Sprintf_d i) = i"
proof (cases "i < 0")
  case True
  then show ?thesis
    by (simp add: decimal_value_def Sprintf_d_def decimal_digits_value_digits)
next
  case False
  obtain ch rest where d: "digits (nat i) = ch # rest" "ch \<noteq> CHR ''-''"
    using digits_head by blast
  have "decimal_digits_value (ch # rest) = nat i"
    using decimal_digits_value_digits [of "nat i"] d by simp
  then show ?thesis
    using False d by (simp add: decimal_value_def Sprintf_d_def)
qed

subsection \<open>When the body is decoded, and what follows\<close>

text \<open>Submission decodes the body exactly when the round trip succeeded with status
  200 or 201.\<close>

lemma GenerateVideo_decodes:
  "Call_Unmarshal body \<in> set (snd (GenerateVideo e c imageURL prompt opts)) \<longleftrightarrow>
     GenerateVideo_response e c imageURL prompt opts = Some (200, body) \<or>
     GenerateVideo_response e c imageURL prompt opts = Some (201, body)"
  unfolding GenerateVideo_def GenerateVideo_response_def
  by (auto simp: Let_def split: option.splits sum.splits)

text \<open>A status lookup decodes the body exactly when the round trip succeeded.\<close>

lemma GetTaskStatus_decodes:
  "Call_Unmarshal body \<in> set (snd (GetTaskStatus e c taskID)) \<longleftrightarrow>
     (\<exists>code. GetTaskStatus_response e c taskID = Some (code, body))"
  unfolding GetTaskStatus_def GetTaskStatus_response_def
  by (auto simp: Let_def split: option.splits sum.splits)

text \<open>The outcome of each operation once its body has been decoded.\<close>

lemma GenerateVideo_decoded:
  assumes "Call_Unmarshal body \<in> set (snd (GenerateVideo e c imageURL prompt opts))"
    and "Unmarshal e body = Inr result"
  shows "fst (GenerateVideo e c imageURL prompt opts) =
     (if Message (OpenAISoraResponse.Error result) \<noteq> ''''
      then Inl (error.Error (''openai error: '' @ Message (OpenAISoraResponse.Error result)) None)
      else Inr \<lparr>TaskID = ID result,
                VideoResult.Status = OpenAISoraResponse.Status result,
                Completed = (OpenAISoraResponse.Status result = ''completed''),
                VideoResult.VideoURL =
                  resolve_video_url (OpenAISoraResponse.VideoURL result) (URL (Video result)),
                VideoResult.Error = ''''\<rparr>)"
  using assms unfolding GenerateVideo_def resolve_video_url_def
  by (auto simp: Let_def split: option.splits sum.splits if_splits)

lemma GetTaskStatus_decoded:
  assumes "Call_Unmarshal body \<in> set (snd (GetTaskStatus e c taskID))"
    and "Unmarshal e body = Inr result"
  shows "fst (GetTaskStatus e c taskID) =
     Inr \<lparr>TaskID = ID result,
          VideoResult.Status = OpenAISoraResponse.Status result,
          Completed = (OpenAISoraResponse.Status result = ''completed''),
          VideoResult.VideoURL =
            resolve_video_url (OpenAISoraResponse.VideoURL result) (URL (Video result)),
          VideoResult.Error = Message (OpenAISoraResponse.Error result)\<rparr>"
  using assms unfolding GetTaskStatus_def resolve_video_url_def
  by (auto simp: Let_def split: option.splits sum.splits if_splits)

text \<open>The sample environment at work.\<close>

lemma sample_GenerateVideo_response:
  "GenerateVideo_response (sample_env code body) c imageURL prompt opts = Some (code, body)"
  by (simp add: GenerateVideo_response_def sample_env_def)

lemma sample_GetTaskStatus_response:
  "GetTaskStatus_response (sample_env code body) c taskID = Some (code, body)"
  by (simp add: GetTaskStatus_response_def sample_env_def)

lemma sample_env_Unmarshal: "Unmarshal (sample_env code body) = sample_Unmarshal"
  by (simp add: sample_env_def)

section \<open>The claims\<close>

text \<open>
  The outcome of each operation in terms of the response it received: a submission that
  received status \<open>code\<close> and a body the decoder accepts, and a status lookup that
  received any status and such a body.
\<close>

lemma GenerateVideo_received:
  assumes "GenerateVideo_response e c imageURL prompt opts = Some (code, body)"
    and "Unmarshal e body = Inr result"
  shows "fst (GenerateVideo e c imageURL prompt opts) =
     (if code \<noteq> 200 \<and> code \<noteq> 201
      then Inl (error.Error (''API error (status '' @ Sprintf_d code @ ''): '' @ body) None)
      else if Message (OpenAISoraResponse.Error result) \<noteq> ''''
      then Inl (error.Error (''openai error: '' @ Message (OpenAISoraResponse.Error result)) None)
      else Inr \<lparr>TaskID = ID result,
                VideoResult.Status = OpenAISoraResponse.Status result,
                Completed = (OpenAISoraResponse.Status result = ''completed''),
                VideoResult.VideoURL =
                  resolve_video_url (OpenAISoraResponse.VideoURL result) (URL (Video result)),
                VideoResult.Error = ''''\<rparr>)"
proof (cases "code = 200 \<or> code = 201")
  case True
  then have "Call_Unmarshal body \<in> set (snd (GenerateVideo e c imageURL prompt opts))"
    using assms(1) GenerateVideo_decodes by blast
  from GenerateVideo_decoded [OF this assms(2)] True show ?thesis
    by auto
next
  case False
  then show ?thesis
    using assms(1) unfolding GenerateVideo_def GenerateVideo_response_def
    by (auto simp: Let_def split: option.splits sum.splits)
qed

lemma GetTaskStatus_received:
  assumes "GetTaskStatus_response e c taskID = Some (code, body)"
    and "Unmarshal e body = Inr result"
  shows "fst (GetTaskStatus e c taskID) =
     Inr \<lparr>TaskID = ID result,
          VideoResult.Status = OpenAISoraResponse.Status result,
          Completed = (OpenAISoraResponse.Status result = ''completed''),
          VideoResult.VideoURL =
            resolve_video_url (OpenAISoraResponse.VideoURL result) (URL (Video result)),
          VideoResult.Error = Message (OpenAISoraResponse.Error result)\<rparr>"
proof -
  have "Call_Unmarshal body \<in> set (snd (GetTaskStatus e c taskID))"
    using assms(1) GetTaskStatus_decodes by blast
  from GetTaskStatus_decoded [OF this assms(2)] show ?thesis .
qed

text \<open>
  C1. For every response received whose body the decoder accepts, the video URL of the
  result is the flat \<^verbatim>\<open>video_url\<close> if that is non-empty, whatever the nested \<^verbatim>\<open>video.url\<close>
  holds; otherwise the nested \<^verbatim>\<open>video.url\<close> if that is non-empty; otherwise empty.
  \<^verbatim>\<open>GetTaskStatus\<close> returns such a result for every status code. \<^verbatim>\<open>GenerateVideo\<close> returns
  such a result when the status code is 200 or 201 and the response has no provider error
  message, and every result it returns, under any status code, obeys the rule.
\<close>

theorem VideoURL_flat_field_precedence:
  assumes "Unmarshal e body = Inr result"
  shows "(GenerateVideo_response e c imageURL prompt opts = Some (code, body) \<longrightarrow>
            ((code = 200 \<or> code = 201) \<and> Message (OpenAISoraResponse.Error result) = '''' \<longrightarrow>
               (\<exists>vr. fst (GenerateVideo e c imageURL prompt opts) = Inr vr)) \<and>
            (\<forall>vr. fst (GenerateVideo e c imageURL prompt opts) = Inr vr \<longrightarrow>
               VideoResult.VideoURL vr =
                 (if OpenAISoraResponse.VideoURL result \<noteq> ''''
                  then OpenAISoraResponse.VideoURL result
                  else if URL (Video result) \<noteq> '''' then URL (Video result) else '''')))
       \<and> (GetTaskStatus_response e c taskID = Some (code', body) \<longrightarrow>
            (\<exists>vr. fst (GetTaskStatus e c taskID) = Inr vr \<and>
               VideoResult.VideoURL vr =
                 (if OpenAISoraResponse.VideoURL result \<noteq> ''''
                  then OpenAISoraResponse.VideoURL result
                  else if URL (Video result) \<noteq> '''' then URL (Video result) else '''')))"
proof (intro conjI impI)
  assume r: "GenerateVideo_response e c imageURL prompt opts = Some (code, body)"
  assume "(code = 200 \<or> code = 201) \<and> Message (OpenAISoraResponse.Error result) = ''''"
  then show "\<exists>vr. fst (GenerateVideo e c imageURL prompt opts) = Inr vr"
    using GenerateVideo_received [OF r assms] by auto
next
  assume r: "GenerateVideo_response e c imageURL prompt opts = Some (code, body)"
  show "\<forall>vr. fst (GenerateVideo e c imageURL prompt opts) = Inr vr \<longrightarrow>
          VideoResult.VideoURL vr =
            (if OpenAISoraResponse.VideoURL result \<noteq> ''''
             then OpenAISoraResponse.VideoURL result
             else if URL (Video result) \<noteq> '''' then URL (Video result) else '''')"
    using GenerateVideo_received [OF r assms]
    by (auto simp: resolve_video_url_def split: if_splits)
next
  assume r: "GetTaskStatus_response e c taskID = Some (code', body)"
  show "\<exists>vr. fst (GetTaskStatus e c taskID) = Inr vr \<and>
          VideoResult.VideoURL vr =
            (if OpenAISoraResponse.VideoURL result \<noteq> ''''
             then OpenAISoraResponse.VideoURL result
             else if URL (Video result) \<noteq> '''' then URL (Video result) else '''')"
    using GetTaskStatus_received [OF r assms]
    by (simp add: resolve_video_url_def)
qed

text \<open>
  The sample response that carries both locations: a submission answered with 200, a
  submission answered with 201 and a lookup answered with 404 all return the flat
  location.
\<close>

theorem VideoURL_flat_field_precedence_witness:
  "Unmarshal (sample_env 200 ''done'') ''done'' = Inr sample_done
   \<and> Unmarshal (sample_env 201 ''done'') ''done'' = Inr sample_done
   \<and> Unmarshal (sample_env 404 ''done'') ''done'' = Inr sample_done
   \<and> GenerateVideo_response (sample_env 200 ''done'') sample_client '''' ''a cat'' []
       = Some (200, ''done'')
   \<and> GenerateVideo_response (sample_env 201 ''done'') sample_client '''' ''a cat'' []
       = Some (201, ''done'')
   \<and> GetTaskStatus_response (sample_env 404 ''done'') sample_client ''t1''
       = Some (404, ''done'')
   \<and> Message (OpenAISoraResponse.Error sample_done) = ''''
   \<and> OpenAISoraResponse.VideoURL sample_done = ''https://cdn/flat.mp4''
   \<and> URL (Video sample_done) = ''https://cdn/nested.mp4''
   \<and> (\<exists>vr. fst (GenerateVideo (sample_env 200 ''done'') sample_client '''' ''a cat'' [])
              = Inr vr \<and> VideoResult.VideoURL vr = ''https://cdn/flat.mp4'')
   \<and> (\<exists>vr. fst (GenerateVideo (sample_env 201 ''done'') sample_client '''' ''a cat'' [])
              = Inr vr \<and> VideoResult.VideoURL vr = ''https://cdn/flat.mp4'')
   \<and> (\<exists>vr. fst (GetTaskStatus (sample_env 404 ''done'') sample_client ''t1'') = Inr vr
            \<and> VideoResult.VideoURL vr = ''https://cdn/flat.mp4'')"
proof -
  have u: "Unmarshal (sample_env 200 ''done'') ''done'' = Inr sample_done"
    "Unmarshal (sample_env 201 ''done'') ''done'' = Inr sample_done"
    "Unmarshal (sample_env 404 ''done'') ''done'' = Inr sample_done"
    by (simp_all add: sample_env_Unmarshal sample_Unmarshal_def)
  have g: "GenerateVideo_response (sample_env 200 ''done'') sample_client '''' ''a cat'' []
      = Some (200, ''done'')"
    "GenerateVideo_response (sample_env 201 ''done'') sample_client '''' ''a cat'' []
      = Some (201, ''done'')"
    by (rule sample_GenerateVideo_response)+
  have s: "GetTaskStatus_response (sample_env 404 ''done'') sample_client ''t1''
      = Some (404, ''done'')"
    by (rule sample_GetTaskStatus_response)
  have f: "Message (OpenAISoraResponse.Error sample_done) = ''''"
    "OpenAISoraResponse.VideoURL sample_done = ''https://cdn/flat.mp4''"
    "URL (Video sample_done) = ''https://cdn/nested.mp4''"
    by (simp_all add: sample_done_def zero_response_def)
  show ?thesis
    using VideoURL_flat_field_precedence
            [OF u(1), of sample_client "''''" "''a cat''" "[]" 200 "''t1''" 404]
          VideoURL_flat_field_precedence
            [OF u(2), of sample_client "''''" "''a cat''" "[]" 201 "''t1''" 404]
          VideoURL_flat_field_precedence
            [OF u(3), of sample_client "''''" "''a cat''" "[]" 404 "''t1''" 404]
          u g s f
    by auto
qed

text \<open>
  C2. For every response received whose body the decoder accepts, the \<^verbatim>\<open>Completed\<close> flag
  of the result is true exactly when the status string equals \<^verbatim>\<open>"completed"\<close>, character
  for character. \<^verbatim>\<open>GetTaskStatus\<close> returns such a result for every status code.
  \<^verbatim>\<open>GenerateVideo\<close> returns such a result when the status code is 200 or 201 and the
  response has no provider error message, and every result it returns, under any status
  code, obeys the rule.
\<close>

theorem Completed_iff_status_completed:
  assumes "Unmarshal e body = Inr result"
  shows "(GenerateVideo_response e c imageURL prompt opts = Some (code, body) \<longrightarrow>
            ((code = 200 \<or> code = 201) \<and> Message (OpenAISoraResponse.Error result) = '''' \<longrightarrow>
               (\<exists>vr. fst (GenerateVideo e c imageURL prompt opts) = Inr vr)) \<and>
            (\<forall>vr. fst (GenerateVideo e c imageURL prompt opts) = Inr vr \<longrightarrow>
               (Completed vr \<longleftrightarrow> OpenAISoraResponse.Status result = ''completed'')))
       \<and> (GetTaskStatus_response e c taskID = Some (code', body) \<longrightarrow>
            (\<exists>vr. fst (GetTaskStatus e c taskID) = Inr vr \<and>
               (Completed vr \<longleftrightarrow> OpenAISoraResponse.Status result = ''completed'')))"
proof (intro conjI impI)
  assume r: "GenerateVideo_response e c imageURL prompt opts = Some (code, body)"
  assume "(code = 200 \<or> code = 201) \<and> Message (OpenAISoraResponse.Error result) = ''''"
  then show "\<exists>vr. fst (GenerateVideo e c imageURL prompt opts) = Inr vr"
    using GenerateVideo_received [OF r assms] by auto
next
  assume r: "GenerateVideo_response e c imageURL prompt opts = Some (code, body)"
  show "\<forall>vr. fst (GenerateVideo e c imageURL prompt opts) = Inr vr \<longrightarrow>
          (Completed vr \<longleftrightarrow> OpenAISoraResponse.Status result = ''completed'')"
    using GenerateVideo_received [OF r assms]
    by (auto split: if_splits)
next
  assume r: "GetTaskStatus_response e c taskID = Some (code', body)"
  show "\<exists>vr. fst (GetTaskStatus e c taskID) = Inr vr \<and>
          (Completed vr \<longleftrightarrow> OpenAISoraResponse.Status result = ''completed'')"
    using GetTaskStatus_received [OF r assms] by simp
qed

text \<open>
  The sample response whose status is \<^verbatim>\<open>"Completed"\<close>, with a capital letter, is not
  completed, after a submission answered with 200 or 201 and after a lookup answered
  with 404; the sample response whose status is \<^verbatim>\<open>"completed"\<close> is, after a submission
  answered with 201 and after a lookup answered with 404.
\<close>

theorem Completed_iff_status_completed_witness:
  "Unmarshal (sample_env 200 ''capital'') ''capital'' = Inr sample_capital
   \<and> Unmarshal (sample_env 201 ''capital'') ''capital'' = Inr sample_capital
   \<and> Unmarshal (sample_env 404 ''capital'') ''capital'' = Inr sample_capital
   \<and> Unmarshal (sample_env 201 ''done'') ''done'' = Inr sample_done
   \<and> Unmarshal (sample_env 404 ''done'') ''done'' = Inr sample_done
   \<and> GenerateVideo_response (sample_env 200 ''capital'') sample_client '''' ''a cat'' []
       = Some (200, ''capital'')
   \<and> GenerateVideo_response (sample_env 201 ''capital'') sample_client '''' ''a cat'' []
       = Some (201, ''capital'')
   \<and> GetTaskStatus_response (sample_env 404 ''capital'') sample_client ''t2''
       = Some (404, ''capital'')
   \<and> GenerateVideo_response (sample_env 201 ''done'') sample_client '''' ''a cat'' []
       = Some (201, ''done'')
   \<and> GetTaskStatus_response (sample_env 404 ''done'') sample_client ''t1''
       = Some (404, ''done'')
   \<and> Message (OpenAISoraResponse.Error sample_capital) = ''''
   \<and> OpenAISoraResponse.Status sample_capital = ''Completed''
   \<and> Message (OpenAISoraResponse.Error sample_done) = ''''
   \<and> OpenAISoraResponse.Status sample_done = ''completed''
   \<and> (\<exists>vr. fst (GenerateVideo (sample_env 200 ''capital'') sample_client '''' ''a cat'' [])
              = Inr vr \<and> \<not> Completed vr)
   \<and> (\<exists>vr. fst (GenerateVideo (sample_env 201 ''capital'') sample_client '''' ''a cat'' [])
              = Inr vr \<and> \<not> Completed vr)
   \<and> (\<exists>vr. fst (GetTaskStatus (sample_env 404 ''capital'') sample_client ''t2'') = Inr vr
            \<and> \<not> Completed vr)
   \<and> (\<exists>vr. fst (GenerateVideo (sample_env 201 ''done'') sample_client '''' ''a cat'' [])
              = Inr vr \<and> Completed vr)
   \<and> (\<exists>vr. fst (GetTaskStatus (sample_env 404 ''done'') sample_client ''t1'') = Inr vr
            \<and> Completed vr)"
proof -
  have u: "Unmarshal (sample_env 200 ''capital'') ''capital'' = Inr sample_capital"
    "Unmarshal (sample_env 201 ''capital'') ''capital'' = Inr sample_capital"
    "Unmarshal (sample_env 404 ''capital'') ''capital'' = Inr sample_capital"
    "Unmarshal (sample_env 201 ''done'') ''done'' = Inr sample_done"
    "Unmarshal (sample_env 404 ''done'') ''done'' = Inr sample_done"
    by (simp_all add: sample_env_Unmarshal sample_Unmarshal_def)
  have g: "GenerateVideo_response (sample_env 200 ''capital'') sample_client '''' ''a cat'' []
      = Some (200, ''capital'')"
    "GenerateVideo_response (sample_env 201 ''capital'') sample_client '''' ''a cat'' []
      = Some (201, ''capital'')"
    "GenerateVideo_response (sample_env 201 ''done'') sample_client '''' ''a cat'' []
      = Some (201, ''done'')"
    by (rule sample_GenerateVideo_response)+
  have s: "GetTaskStatus_response (sample_env 404 ''capital'') sample_client ''t2''
      = Some (404, ''capital'')"
    "GetTaskStatus_response (sample_env 404 ''done'') sample_client ''t1''
      = Some (404, ''done'')"
    by (rule sample_GetTaskStatus_response)+
  have f: "Message (OpenAISoraResponse.Error sample_capital) = ''''"
    "OpenAISoraResponse.Status sample_capital = ''Completed''"
    "Message (OpenAISoraResponse.Error sample_done) = ''''"
    "OpenAISoraResponse.Status sample_done = ''completed''"
    by (simp_all add: sample_capital_def sample_done_def zero_response_def)
  show ?thesis
    using Completed_iff_status_completed
            [OF u(1), of sample_client "''''" "''a cat''" "[]" 200 "''t2''" 404]
          Completed_iff_status_completed
            [OF u(2), of sample_client "''''" "''a cat''" "[]" 201 "''t2''" 404]
          Completed_iff_status_completed
            [OF u(3), of sample_client "''''" "''a cat''" "[]" 404 "''t2''" 404]
          Completed_iff_status_completed
            [OF u(4), of sample_client "''''" "''a cat''" "[]" 201 "''t1''" 404]
          Completed_iff_status_completed
            [OF u(5), of sample_client "''''" "''a cat''" "[]" 404 "''t1''" 404]
          u g s f
    by auto
qed

text \<open>
  C5. A status lookup that received a response, under any status code, whose body the
  decoder accepts with a non-empty \<^verbatim>\<open>error.message\<close> returns no call-level error: it
  returns a result whose \<^verbatim>\<open>Error\<close> field is that message.
\<close>

theorem GetTaskStatus_provider_error_is_data:
  assumes "GetTaskStatus_response e c taskID = Some (code, body)"
    and "Unmarshal e body = Inr result"
    and "Message (OpenAISoraResponse.Error result) \<noteq> ''''"
  shows "\<exists>vr. fst (GetTaskStatus e c taskID) = Inr vr \<and>
           VideoResult.Error vr = Message (OpenAISoraResponse.Error result)"
  using GetTaskStatus_received [OF assms(1) assms(2)] by simp

text \<open>The failed sample response, received with status 200 and with status 404.\<close>

theorem GetTaskStatus_provider_error_is_data_witness:
  "GetTaskStatus_response (sample_env 200 ''failed'') sample_client ''t3''
     = Some (200, ''failed'')
   \<and> GetTaskStatus_response (sample_env 404 ''failed'') sample_client ''t3''
       = Some (404, ''failed'')
   \<and> Unmarshal (sample_env 200 ''failed'') ''failed'' = Inr sample_failed
   \<and> Unmarshal (sample_env 404 ''failed'') ''failed'' = Inr sample_failed
   \<and> Message (OpenAISoraResponse.Error sample_failed) = ''content policy''
   \<and> (\<exists>vr. fst (GetTaskStatus (sample_env 200 ''failed'') sample_client ''t3'') = Inr vr
            \<and> VideoResult.Error vr = ''content policy'')
   \<and> (\<exists>vr. fst (GetTaskStatus (sample_env 404 ''failed'') sample_client ''t3'') = Inr vr
            \<and> VideoResult.Error vr = ''content policy'')"
proof -
  have s: "GetTaskStatus_response (sample_env 200 ''failed'') sample_client ''t3''
      = Some (200, ''failed'')"
    "GetTaskStatus_response (sample_env 404 ''failed'') sample_client ''t3''
      = Some (404, ''failed'')"
    by (rule sample_GetTaskStatus_response)+
  have u: "Unmarshal (sample_env 200 ''failed'') ''failed'' = Inr sample_failed"
    "Unmarshal (sample_env 404 ''failed'') ''failed'' = Inr sample_failed"
    by (simp_all add: sample_env_Unmarshal sample_Unmarshal_def)
  have m: "Message (OpenAISoraResponse.Error sample_failed) = ''content policy''"
    by (simp add: sample_failed_def zero_response_def)
  then have n: "Message (OpenAISoraResponse.Error sample_failed) \<noteq> ''''"
    by simp
  show ?thesis
    using GetTaskStatus_provider_error_is_data [OF s(1) u(1) n]
          GetTaskStatus_provider_error_is_data [OF s(2) u(2) n] s u m
    by simp
qed

text \<open>
  C6. A submission that received a response whose body the decoder accepts with a
  non-empty \<^verbatim>\<open>error.message\<close> returns no result, whatever the status code. When the status
  code is 200 or 201, the one case in which the code decodes the body, the error returned
  is the one whose text is \<^verbatim>\<open>"openai error: "\<close> followed by the provider's message.
\<close>

theorem GenerateVideo_provider_error_aborts:
  assumes "GenerateVideo_response e c imageURL prompt opts = Some (code, body)"
    and "Unmarshal e body = Inr result"
    and "Message (OpenAISoraResponse.Error result) \<noteq> ''''"
  shows "(\<forall>vr. fst (GenerateVideo e c imageURL prompt opts) \<noteq> Inr vr)
       \<and> (code = 200 \<or> code = 201 \<longrightarrow>
            fst (GenerateVideo e c imageURL prompt opts) =
              Inl (error.Error
                     (''openai error: '' @ Message (OpenAISoraResponse.Error result)) None))"
  using GenerateVideo_received [OF assms(1) assms(2)] assms(3)
  by auto

text \<open>The failed sample response, received with status 200 and with status 201.\<close>

theorem GenerateVideo_provider_error_aborts_witness:
  "GenerateVideo_response (sample_env 200 ''failed'') sample_client '''' ''a cat'' []
     = Some (200, ''failed'')
   \<and> GenerateVideo_response (sample_env 201 ''failed'') sample_client '''' ''a cat'' []
       = Some (201, ''failed'')
   \<and> Unmarshal (sample_env 200 ''failed'') ''failed'' = Inr sample_failed
   \<and> Unmarshal (sample_env 201 ''failed'') ''failed'' = Inr sample_failed
   \<and> Message (OpenAISoraResponse.Error sample_failed) = ''content policy''
   \<and> fst (GenerateVideo (sample_env 200 ''failed'') sample_client '''' ''a cat'' [])
       = Inl (error.Error ''openai error: content policy'' None)
   \<and> fst (GenerateVideo (sample_env 201 ''failed'') sample_client '''' ''a cat'' [])
       = Inl (error.Error ''openai error: content policy'' None)"
proof -
  have g: "GenerateVideo_response (sample_env 200 ''failed'') sample_client '''' ''a cat'' []
      = Some (200, ''failed'')"
    "GenerateVideo_response (sample_env 201 ''failed'') sample_client '''' ''a cat'' []
      = Some (201, ''failed'')"
    by (rule sample_GenerateVideo_response)+
  have u: "Unmarshal (sample_env 200 ''failed'') ''failed'' = Inr sample_failed"
    "Unmarshal (sample_env 201 ''failed'') ''failed'' = Inr sample_failed"
    by (simp_all add: sample_env_Unmarshal sample_Unmarshal_def)
  have m: "Message (OpenAISoraResponse.Error sample_failed) = ''content policy''"
    by (simp add: sample_failed_def zero_response_def)
  then have n: "Message (OpenAISoraResponse.Error sample_failed) \<noteq> ''''"
    by simp
  show ?thesis
    using GenerateVideo_provider_error_aborts [OF g(1) u(1) n]
          GenerateVideo_provider_error_aborts [OF g(2) u(2) n] g u m
    by simp
qed

text \<open>
  C10. In a status lookup a provider error does not suppress normalisation: for a response
  received, under any status code, whose body the decoder accepts with a non-empty
  \<^verbatim>\<open>error.message\<close>, the result returned carries the task identifier, the status, the
  completed flag and the video URL derived from that response by the ordinary rules,
  beside the error message.
\<close>

theorem GetTaskStatus_error_keeps_normalization:
  assumes "GetTaskStatus_response e c taskID = Some (code, body)"
    and "Unmarshal e body = Inr result"
    and "Message (OpenAISoraResponse.Error result) \<noteq> ''''"
  shows "fst (GetTaskStatus e c taskID) =
     Inr \<lparr>TaskID = ID result,
          VideoResult.Status = OpenAISoraResponse.Status result,
          Completed = (OpenAISoraResponse.Status result = ''completed''),
          VideoResult.VideoURL =
            (if OpenAISoraResponse.VideoURL result \<noteq> ''''
             then OpenAISoraResponse.VideoURL result
             else if URL (Video result) \<noteq> '''' then URL (Video result) else ''''),
          VideoResult.Error = Message (OpenAISoraResponse.Error result)\<rparr>"
  using GetTaskStatus_received [OF assms(1) assms(2)]
  by (simp add: resolve_video_url_def)

text \<open>The failed sample response, received with status 404 and with status 200.\<close>

theorem GetTaskStatus_error_keeps_normalization_witness:
  "GetTaskStatus_response (sample_env 404 ''failed'') sample_client ''t3''
     = Some (404, ''failed'')
   \<and> GetTaskStatus_response (sample_env 200 ''failed'') sample_client ''t3''
       = Some (200, ''failed'')
   \<and> Unmarshal (sample_env 404 ''failed'') ''failed'' = Inr sample_failed
   \<and> Unmarshal (sample_env 200 ''failed'') ''failed'' = Inr sample_failed
   \<and> Message (OpenAISoraResponse.Error sample_failed) \<noteq> ''''
   \<and> fst (GetTaskStatus (sample_env 404 ''failed'') sample_client ''t3'') =
       Inr \<lparr>TaskID = ''t3'', VideoResult.Status = ''failed'', Completed = False,
            VideoResult.VideoURL = ''https://cdn/partial.mp4'',
            VideoResult.Error = ''content policy''\<rparr>
   \<and> fst (GetTaskStatus (sample_env 200 ''failed'') sample_client ''t3'') =
       Inr \<lparr>TaskID = ''t3'', VideoResult.Status = ''failed'', Completed = False,
            VideoResult.VideoURL = ''https://cdn/partial.mp4'',
            VideoResult.Error = ''content policy''\<rparr>"
proof -
  have s: "GetTaskStatus_response (sample_env 404 ''failed'') sample_client ''t3''
      = Some (404, ''failed'')"
    "GetTaskStatus_response (sample_env 200 ''failed'') sample_client ''t3''
      = Some (200, ''failed'')"
    by (rule sample_GetTaskStatus_response)+
  have u: "Unmarshal (sample_env 404 ''failed'') ''failed'' = Inr sample_failed"
    "Unmarshal (sample_env 200 ''failed'') ''failed'' = Inr sample_failed"
    by (simp_all add: sample_env_Unmarshal sample_Unmarshal_def)
  have n: "Message (OpenAISoraResponse.Error sample_failed) \<noteq> ''''"
    by (simp add: sample_failed_def zero_response_def)
  show ?thesis
    using GetTaskStatus_error_keeps_normalization [OF s(1) u(1) n]
          GetTaskStatus_error_keeps_normalization [OF s(2) u(2) n] s u n
    by (simp add: sample_failed_def zero_response_def)
qed

text \<open>
  C7. A status lookup does not look at the HTTP status code: whatever code the response
  carries, the body read is handed to the decoder. If the decoder rejects it, the call
  returns the error \<^verbatim>\<open>"parse response: ..."\<close> wrapping the decoder's error; if the decoder
  accepts it, the call returns the normalised result.
\<close>

theorem GetTaskStatus_ignores_status_code:
  assumes "GetTaskStatus_response e c taskID = Some (code, body)"
  shows "Call_Unmarshal body \<in> set (snd (GetTaskStatus e c taskID))
       \<and> (\<forall>err. Unmarshal e body = Inl err \<longrightarrow>
            fst (GetTaskStatus e c taskID) = Inl (Errorf_w ''parse response: '' err))
       \<and> (\<forall>result. Unmarshal e body = Inr result \<longrightarrow>
            fst (GetTaskStatus e c taskID) =
              Inr \<lparr>TaskID = ID result,
                   VideoResult.Status = OpenAISoraResponse.Status result,
                   Completed = (OpenAISoraResponse.Status result = ''completed''),
                   VideoResult.VideoURL =
                     (if OpenAISoraResponse.VideoURL result \<noteq> ''''
                      then OpenAISoraResponse.VideoURL result
                      else if URL (Video result) \<noteq> '''' then URL (Video result) else ''''),
                   VideoResult.Error = Message (OpenAISoraResponse.Error result)\<rparr>)"
proof (intro conjI allI impI)
  show d: "Call_Unmarshal body \<in> set (snd (GetTaskStatus e c taskID))"
    using assms GetTaskStatus_decodes by blast
  fix result
  assume "Unmarshal e body = Inr result"
  from GetTaskStatus_decoded [OF d this]
  show "fst (GetTaskStatus e c taskID) =
      Inr \<lparr>TaskID = ID result,
           VideoResult.Status = OpenAISoraResponse.Status result,
           Completed = (OpenAISoraResponse.Status result = ''completed''),
           VideoResult.VideoURL =
             (if OpenAISoraResponse.VideoURL result \<noteq> ''''
              then OpenAISoraResponse.VideoURL result
              else if URL (Video result) \<noteq> '''' then URL (Video result) else ''''),
           VideoResult.Error = Message (OpenAISoraResponse.Error result)\<rparr>"
    by (simp add: resolve_video_url_def)
next
  fix err
  assume "Unmarshal e body = Inl err"
  then show "fst (GetTaskStatus e c taskID) = Inl (Errorf_w ''parse response: '' err)"
    using assms unfolding GetTaskStatus_def GetTaskStatus_response_def
    by (auto simp: Let_def split: option.splits sum.splits)
qed

text \<open>
  A lookup answered with status 500: a body the sample decoder rejects gives the parse
  error, a body it accepts gives the normalised result.
\<close>

theorem GetTaskStatus_ignores_status_code_witness:
  "GetTaskStatus_response (sample_env 500 ''<html>'') sample_client ''t1''
     = Some (500, ''<html>'')
   \<and> Unmarshal (sample_env 500 ''<html>'') ''<html>''
       = Inl (error.Error ''invalid character'' None)
   \<and> Call_Unmarshal ''<html>''
       \<in> set (snd (GetTaskStatus (sample_env 500 ''<html>'') sample_client ''t1''))
   \<and> fst (GetTaskStatus (sample_env 500 ''<html>'') sample_client ''t1'')
       = Inl (error.Error ''parse response: invalid character''
               (Some (error.Error ''invalid character'' None)))
   \<and> GetTaskStatus_response (sample_env 500 ''done'') sample_client ''t1''
       = Some (500, ''done'')
   \<and> Unmarshal (sample_env 500 ''done'') ''done'' = Inr sample_done
   \<and> fst (GetTaskStatus (sample_env 500 ''done'') sample_client ''t1'')
       = Inr \<lparr>TaskID = ''t1'', VideoResult.Status = ''completed'', Completed = True,
              VideoResult.VideoURL = ''https://cdn/flat.mp4'', VideoResult.Error = ''''\<rparr>"
proof -
  have r1: "GetTaskStatus_response (sample_env 500 ''<html>'') sample_client ''t1''
      = Some (500, ''<html>'')"
    by (rule sample_GetTaskStatus_response)
  have u1: "Unmarshal (sample_env 500 ''<html>'') ''<html>''
      = Inl (error.Error ''invalid character'' None)"
    by (simp add: sample_env_Unmarshal sample_Unmarshal_def)
  have r2: "GetTaskStatus_response (sample_env 500 ''done'') sample_client ''t1''
      = Some (500, ''done'')"
    by (rule sample_GetTaskStatus_response)
  have u2: "Unmarshal (sample_env 500 ''done'') ''done'' = Inr sample_done"
    by (simp add: sample_env_Unmarshal sample_Unmarshal_def)
  show ?thesis
    using GetTaskStatus_ignores_status_code [OF r1] GetTaskStatus_ignores_status_code [OF r2]
      r1 u1 r2 u2
    by (simp add: Errorf_w_def sample_done_def zero_response_def)
qed

text \<open>
  C4. A submission whose response carries a status code other than 200 and 201 returns,
  whatever the body, the error whose text is \<^verbatim>\<open>"API error (status "\<close>, the code in
  decimal, \<^verbatim>\<open>"): "\<close> and the raw body. The decoder is not called: no decoding appears
  among the calls made, and the outcome is the same under every decoder.
\<close>

theorem GenerateVideo_rejects_status:
  assumes "GenerateVideo_response e c imageURL prompt opts = Some (code, body)"
    and "code \<noteq> 200" and "code \<noteq> 201"
  shows "fst (GenerateVideo e c imageURL prompt opts) =
           Inl (error.Error (''API error (status '' @ Sprintf_d code @ ''): '' @ body) None)
       \<and> decimal_value (Sprintf_d code) = code
       \<and> (\<forall>b. Call_Unmarshal b \<notin> set (snd (GenerateVideo e c imageURL prompt opts)))
       \<and> (\<forall>u. GenerateVideo (e\<lparr>Unmarshal := u\<rparr>) c imageURL prompt opts
              = GenerateVideo e c imageURL prompt opts)"
proof (intro conjI allI)
  show "fst (GenerateVideo e c imageURL prompt opts) =
      Inl (error.Error (''API error (status '' @ Sprintf_d code @ ''): '' @ body) None)"
    using assms unfolding GenerateVideo_def GenerateVideo_response_def
    by (auto simp: Let_def split: option.splits sum.splits)
  show "decimal_value (Sprintf_d code) = code"
    by (rule decimal_value_Sprintf_d)
  fix b
  show "Call_Unmarshal b \<notin> set (snd (GenerateVideo e c imageURL prompt opts))"
    using assms by (auto simp: GenerateVideo_decodes)
next
  fix u
  show "GenerateVideo (e\<lparr>Unmarshal := u\<rparr>) c imageURL prompt opts
      = GenerateVideo e c imageURL prompt opts"
    using assms unfolding GenerateVideo_def GenerateVideo_response_def GenerateVideo_request_def
    by (auto simp: Let_def split: option.splits sum.splits)
qed

text \<open>A submission answered with status 500 and a body that is not JSON.\<close>

theorem GenerateVideo_rejects_status_witness:
  "GenerateVideo_response (sample_env 500 ''<html>'') sample_client '''' ''a cat'' []
     = Some (500, ''<html>'')
   \<and> (500::int) \<noteq> 200 \<and> (500::int) \<noteq> 201
   \<and> fst (GenerateVideo (sample_env 500 ''<html>'') sample_client '''' ''a cat'' [])
       = Inl (error.Error ''API error (status 500): <html>'' None)
   \<and> (\<forall>b. Call_Unmarshal b
            \<notin> set (snd (GenerateVideo (sample_env 500 ''<html>'') sample_client ''''
                          ''a cat'' [])))"
proof -
  have r: "GenerateVideo_response (sample_env 500 ''<html>'') sample_client '''' ''a cat'' []
      = Some (500, ''<html>'')"
    by (rule sample_GenerateVideo_response)
  have p: "Sprintf_d 500 = ''500''"
    by (simp add: Sprintf_d_def digits.simps)
  show ?thesis
    using GenerateVideo_rejects_status [OF r] r p by simp
qed

subsection \<open>The submitted form\<close>

text \<open>Every options bag is the outcome of some list of mutators.\<close>

lemma GenerateVideo_options_any: "GenerateVideo_options [\<lambda>options. b] = b"
  by (simp add: GenerateVideo_options_def)

text \<open>The request handed to \<^verbatim>\<open>Do\<close> carries the form built from the arguments.\<close>

lemma GenerateVideo_submits_form:
  "Call_Do req \<in> set (snd (GenerateVideo e c imageURL prompt opts)) \<Longrightarrow>
     Form req = Some (GenerateVideo_form c imageURL prompt opts)"
  unfolding GenerateVideo_def GenerateVideo_request_def
  by (auto simp: Let_def split: option.splits sum.splits if_splits)

text \<open>
  C3. When the options bag, after all mutators, has a duration of zero or less, the form
  has no \<^verbatim>\<open>seconds\<close> field. When the duration is positive, the form has exactly one
  \<^verbatim>\<open>seconds\<close> field; its value is the duration printed in decimal, which read back as a
  decimal numeral is that integer.
\<close>

theorem seconds_field_iff_positive_duration:
  assumes "GenerateVideo_options opts = options"
  shows "(Duration options \<le> 0 \<longrightarrow>
            ''seconds'' \<notin> fst ` set (GenerateVideo_form c imageURL prompt opts))
       \<and> (0 < Duration options \<longrightarrow>
            filter (\<lambda>field. fst field = ''seconds'') (GenerateVideo_form c imageURL prompt opts)
              = [(''seconds'', Sprintf_d (Duration options))]
            \<and> decimal_value (Sprintf_d (Duration options)) = Duration options)"
  using assms unfolding GenerateVideo_form_def WriteField_def
  by (simp add: Let_def decimal_value_Sprintf_d)

text \<open>
  The scenario of the spec: image \<^verbatim>\<open>https://x/y.png\<close>, prompt \<^verbatim>\<open>a cat\<close>, duration 6; and
  the same call with duration 0.
\<close>

theorem seconds_field_iff_positive_duration_witness:
  "GenerateVideo_options [\<lambda>options. options\<lparr>Duration := 6\<rparr>]
     = \<lparr>Duration = 6, Resolution = '''', VideoOptions.Model = ''''\<rparr>
   \<and> (0::int) < 6
   \<and> filter (\<lambda>field. fst field = ''seconds'')
        (GenerateVideo_form sample_client ''https://x/y.png'' ''a cat''
           [\<lambda>options. options\<lparr>Duration := 6\<rparr>])
       = [(''seconds'', ''6'')]
   \<and> decimal_value ''6'' = 6
   \<and> GenerateVideo_options [\<lambda>options. options\<lparr>Duration := 0\<rparr>]
       = \<lparr>Duration = 0, Resolution = '''', VideoOptions.Model = ''''\<rparr>
   \<and> (0::int) \<le> 0
   \<and> ''seconds'' \<notin> fst ` set (GenerateVideo_form sample_client ''https://x/y.png'' ''a cat''
                                  [\<lambda>options. options\<lparr>Duration := 0\<rparr>])"
proof -
  have o6: "GenerateVideo_options [\<lambda>options. options\<lparr>Duration := 6\<rparr>]
      = \<lparr>Duration = 6, Resolution = '''', VideoOptions.Model = ''''\<rparr>"
    by (simp add: GenerateVideo_options_def)
  have o0: "GenerateVideo_options [\<lambda>options. options\<lparr>Duration := 0\<rparr>]
      = \<lparr>Duration = 0, Resolution = '''', VideoOptions.Model = ''''\<rparr>"
    by (simp add: GenerateVideo_options_def)
  have p: "Sprintf_d 6 = ''6''"
    by (simp add: Sprintf_d_def digits.simps)
  show ?thesis
    using seconds_field_iff_positive_duration
            [OF o6, of sample_client "''https://x/y.png''" "''a cat''"]
          seconds_field_iff_positive_duration
            [OF o0, of sample_client "''https://x/y.png''" "''a cat''"]
          o6 o0 p
    by simp
qed

text \<open>
  C8. The form has an \<^verbatim>\<open>input_reference\<close> field exactly when the image URL is non-empty,
  and then exactly one, holding that URL. Every form has exactly one \<^verbatim>\<open>model\<close> field and
  exactly one \<^verbatim>\<open>prompt\<close> field, the latter holding the prompt.
\<close>

theorem input_reference_iff_image_given:
  "(''input_reference'' \<in> fst ` set (GenerateVideo_form c imageURL prompt opts)
      \<longleftrightarrow> imageURL \<noteq> '''')
   \<and> (imageURL \<noteq> '''' \<longrightarrow>
        filter (\<lambda>field. fst field = ''input_reference'')
          (GenerateVideo_form c imageURL prompt opts) = [(''input_reference'', imageURL)])
   \<and> (\<exists>model. filter (\<lambda>field. fst field = ''model'')
                 (GenerateVideo_form c imageURL prompt opts) = [(''model'', model)])
   \<and> filter (\<lambda>field. fst field = ''prompt'') (GenerateVideo_form c imageURL prompt opts)
       = [(''prompt'', prompt)]"
  unfolding GenerateVideo_form_def WriteField_def
  by (simp add: Let_def)

text \<open>The scenario of the spec, and the same call without an image (text to video).\<close>

theorem input_reference_iff_image_given_witness:
  "''https://x/y.png'' \<noteq> ''''
   \<and> GenerateVideo_form sample_client ''https://x/y.png'' ''a cat''
        [\<lambda>options. options\<lparr>Duration := 6\<rparr>]
       = [(''model'', ''sora-2''), (''prompt'', ''a cat''),
          (''input_reference'', ''https://x/y.png''), (''seconds'', ''6'')]
   \<and> filter (\<lambda>field. fst field = ''input_reference'')
        (GenerateVideo_form sample_client ''https://x/y.png'' ''a cat''
           [\<lambda>options. options\<lparr>Duration := 6\<rparr>])
       = [(''input_reference'', ''https://x/y.png'')]
   \<and> ''input_reference'' \<notin> fst ` set (GenerateVideo_form sample_client '''' ''a cat'' [])"
proof -
  have n: "''https://x/y.png'' \<noteq> ''''"
    by simp
  have p: "Sprintf_d 6 = ''6''"
    by (simp add: Sprintf_d_def digits.simps)
  have f: "GenerateVideo_form sample_client ''https://x/y.png'' ''a cat''
        [\<lambda>options. options\<lparr>Duration := 6\<rparr>]
       = [(''model'', ''sora-2''), (''prompt'', ''a cat''),
          (''input_reference'', ''https://x/y.png''), (''seconds'', ''6'')]"
    by (simp add: GenerateVideo_form_def GenerateVideo_options_def WriteField_def Let_def p
        sample_client_def NewOpenAISoraClient_def)
  show ?thesis
    using input_reference_iff_image_given
            [of sample_client "''https://x/y.png''" "''a cat''"
                "[\<lambda>options. options\<lparr>Duration := 6\<rparr>]"]
          input_reference_iff_image_given [of sample_client "''''" "''a cat''" "[]"]
          n f
    by simp
qed



end
